theory Spec2Isabelle
  imports Complex_Main "HOL-Library.Sublist"
begin

section \<open>Schemas (schemas.py)\<close>

text \<open>
  The three blog schemas are classes with typed fields; each is a record here. A
  constructor call such as \<^verbatim>\<open>Sector(name=..., slug=...)\<close> validates its keyword
  arguments, so each constructor is a function from the arguments to either the list of
  validation errors (field name and kind of error, in field order) or the record. An
  argument that is not given is \<open>None\<close>; for a field declared with \<^verbatim>\<open>Field(...)\<close>
  that is the error \<open>Missing\<close>, for the other fields it is the declared default.

  A rating is a finite number (a Python float read as the rational it denotes; the
  comparisons with the bounds 0 and 5 are exact on it). The type \<^verbatim>\<open>HttpUrl\<close> belongs
  to the validation library: its parser is the parameter \<open>HttpUrl\<close> of \<open>Tool\<close>, which
  gives the accepted URL or \<open>None\<close> for text that is not a well-formed URL.
\<close>

datatype err_type = Missing | Greater_than_equal | Less_than_equal | Url_parsing

type_synonym validation_error = "(string \<times> err_type) list"

record Sector =
  name :: string
  slug :: string
  description :: "string option"

record Tool =
  name :: string
  sector_slug :: string
  summary :: string
  strengths :: "string list"
  limitations :: "string list"
  website :: "string option"
  pricing :: "string option"
  rating :: "rat option"

record Comparison =
  sector_slug :: string
  headline :: string
  intro :: "string option"
  top_tools :: "string list"

text \<open>\<^verbatim>\<open>Field(...)\<close>: the field is required, with no further constraint on the text.\<close>

definition required :: "string \<Rightarrow> 'a option \<Rightarrow> validation_error" where
  "required field v = (case v of None \<Rightarrow> [(field, Missing)] | Some _ \<Rightarrow> [])"

text \<open>\<^verbatim>\<open>Field(default_factory=list)\<close>: an absent list is the empty list.\<close>

definition default_list :: "'a list option \<Rightarrow> 'a list" where
  "default_list v = (case v of None \<Rightarrow> [] | Some xs \<Rightarrow> xs)"

text \<open>\<^verbatim>\<open>Optional[float] = Field(None, ge=0, le=5)\<close>.\<close>

definition check_rating :: "rat option \<Rightarrow> validation_error" where
  "check_rating v =
     (case v of
        None \<Rightarrow> []
      | Some r \<Rightarrow>
          if \<not> 0 \<le> r then [(''rating'', Greater_than_equal)]
          else if \<not> r \<le> 5 then [(''rating'', Less_than_equal)]
          else [])"

text \<open>\<^verbatim>\<open>Optional[HttpUrl] = Field(None)\<close>.\<close>

definition check_website :: "(string \<Rightarrow> string option) \<Rightarrow> string option \<Rightarrow> validation_error" where
  "check_website HttpUrl v =
     (case v of
        None \<Rightarrow> []
      | Some u \<Rightarrow> (case HttpUrl u of None \<Rightarrow> [(''website'', Url_parsing)] | Some _ \<Rightarrow> []))"

definition Sector ::
  "string option \<Rightarrow> string option \<Rightarrow> string option \<Rightarrow> validation_error + Sector" where
  "Sector name_arg slug_arg description_arg =
     (case (name_arg, slug_arg) of
        (Some n, Some s) \<Rightarrow> Inr \<lparr>Sector.name = n, slug = s, description = description_arg\<rparr>
      | _ \<Rightarrow> Inl (required ''name'' name_arg @ required ''slug'' slug_arg))"

definition Tool ::
  "(string \<Rightarrow> string option) \<Rightarrow> string option \<Rightarrow> string option \<Rightarrow> string option \<Rightarrow>
   string list option \<Rightarrow> string list option \<Rightarrow> string option \<Rightarrow> string option \<Rightarrow>
   rat option \<Rightarrow> validation_error + Tool" where
  "Tool HttpUrl name_arg sector_slug_arg summary_arg strengths_arg limitations_arg
        website_arg pricing_arg rating_arg =
     (let errs = required ''name'' name_arg @ required ''sector_slug'' sector_slug_arg
               @ required ''summary'' summary_arg @ check_website HttpUrl website_arg
               @ check_rating rating_arg
      in case (name_arg, sector_slug_arg, summary_arg) of
           (Some n, Some sl, Some su) \<Rightarrow>
             if errs = [] then
               Inr \<lparr>Tool.name = n, sector_slug = sl, summary = su,
                    strengths = default_list strengths_arg,
                    limitations = default_list limitations_arg,
                    website = Option.bind website_arg HttpUrl,
                    pricing = pricing_arg, rating = rating_arg\<rparr>
             else Inl errs
         | _ \<Rightarrow> Inl errs)"

definition Comparison ::
  "string option \<Rightarrow> string option \<Rightarrow> string option \<Rightarrow> string list option \<Rightarrow>
   validation_error + Comparison" where
  "Comparison sector_slug_arg headline_arg intro_arg top_tools_arg =
     (case (sector_slug_arg, headline_arg) of
        (Some s, Some h) \<Rightarrow>
          Inr \<lparr>Comparison.sector_slug = s, headline = h, intro = intro_arg,
               top_tools = default_list top_tools_arg\<rparr>
      | _ \<Rightarrow> Inl (required ''sector_slug'' sector_slug_arg @ required ''headline'' headline_arg))"

section \<open>The document store\<close>

text \<open>
  The handle \<^verbatim>\<open>db\<close> of database.py is \<open>None\<close> when no store is configured. A configured
  store holds one collection per schema, each a list of documents in insertion order
  (the order in which the store returns them). A document is the identifier the store
  gave it together with the record of its schema.
\<close>

datatype 'a document = Document (oid: nat) (body: 'a)

record store =
  sector :: "Sector document list"
  tool :: "Tool document list"
  comparison :: "Comparison document list"
  next_oid :: nat

text \<open>
  Modelled from the spec: \<^verbatim>\<open>create_document\<close> of database.py, which is not among the
  sources. It stores the record as one new document of the named collection and changes
  nothing else; the identifier is fresh. There is one function per collection name that
  main.py passes.
\<close>

definition create_document_sector :: "Sector \<Rightarrow> store \<Rightarrow> store" where
  "create_document_sector x s =
     s\<lparr>sector := sector s @ [Document (next_oid s) x], next_oid := Suc (next_oid s)\<rparr>"

definition create_document_tool :: "Tool \<Rightarrow> store \<Rightarrow> store" where
  "create_document_tool x s =
     s\<lparr>tool := tool s @ [Document (next_oid s) x], next_oid := Suc (next_oid s)\<rparr>"

definition create_document_comparison :: "Comparison \<Rightarrow> store \<Rightarrow> store" where
  "create_document_comparison x s =
     s\<lparr>comparison := comparison s @ [Document (next_oid s) x], next_oid := Suc (next_oid s)\<rparr>"

text \<open>
  Modelled from the spec: \<^verbatim>\<open>get_documents\<close> of database.py, which is not among the
  sources: all documents of the collection.
\<close>

definition get_documents_sector :: "store \<Rightarrow> Sector document list" where
  "get_documents_sector s = sector s"

text \<open>
  The driver's queries: \<^verbatim>\<open>find(filter)\<close> gives every document that satisfies the filter,
  \<^verbatim>\<open>find_one(filter)\<close> the first one or \<^verbatim>\<open>None\<close>.
\<close>

definition coll_find :: "('a document \<Rightarrow> bool) \<Rightarrow> 'a document list \<Rightarrow> 'a document list" where
  "coll_find flt docs = filter flt docs"

fun coll_find_one :: "('a document \<Rightarrow> bool) \<Rightarrow> 'a document list \<Rightarrow> 'a document option" where
  "coll_find_one flt [] = None"
| "coll_find_one flt (d # docs) = (if flt d then Some d else coll_find_one flt docs)"

section \<open>Responses and failures\<close>

datatype json =
    JNull
  | JStr string
  | JNum rat
  | JOid nat
  | JList "json list"
  | JObj "(string \<times> json) list"

text \<open>\<open>JOid\<close> is the text form of a document identifier (\<^verbatim>\<open>str(d.get("_id"))\<close>).\<close>

definition opt_str :: "string option \<Rightarrow> json" where
  "opt_str v = (case v of None \<Rightarrow> JNull | Some s \<Rightarrow> JStr s)"

definition opt_num :: "rat option \<Rightarrow> json" where
  "opt_num v = (case v of None \<Rightarrow> JNull | Some r \<Rightarrow> JNum r)"

datatype exc = ValidationError validation_error | Other_exception string

datatype failure = HTTPException nat string | Unhandled exc

text \<open>
  A list display builds its elements in order; the first constructor that raises ends it.
\<close>

fun collect :: "('e + 'a) list \<Rightarrow> 'e + 'a list" where
  "collect [] = Inr []"
| "collect (x # xs) =
     (case x of
        Inl e \<Rightarrow> Inl e
      | Inr v \<Rightarrow> (case collect xs of Inl e \<Rightarrow> Inl e | Inr vs \<Rightarrow> Inr (v # vs)))"

section \<open>POST /seed\<close>

definition sectors :: "(validation_error + Sector) list" where
  "sectors =
     [Sector (Some ''Marketing'') (Some ''marketing'') (Some ''Campaigns, content, SEO''),
      Sector (Some ''Sales'') (Some ''sales'') (Some ''Prospecting and enablement''),
      Sector (Some ''Customer Support'') (Some ''support'') (Some ''Helpdesk and chatbots''),
      Sector (Some ''Software Development'') (Some ''engineering'')
        (Some ''Code assistants and DevOps''),
      Sector (Some ''Design'') (Some ''design'') (Some ''Images, video, UI/UX'')]"

definition tools :: "(string \<Rightarrow> string option) \<Rightarrow> (validation_error + Tool) list" where
  "tools HttpUrl =
     [Tool HttpUrl (Some ''Jasper'') (Some ''marketing'') (Some ''AI copy for ads and blogs'')
        (Some [''Templates'', ''Brand voice'']) (Some [''Price''])
        (Some ''https://www.jasper.ai'') (Some ''From $39/mo'') (Some (42 / 10)),
      Tool HttpUrl (Some ''HubSpot AI'') (Some ''marketing'') (Some ''AI features inside HubSpot'')
        (Some [''Integrated'']) (Some [''Ecosystem lock-in''])
        (Some ''https://www.hubspot.com'') (Some ''Tiered'') (Some (40 / 10)),
      Tool HttpUrl (Some ''Apollo AI'') (Some ''sales'') (Some ''Prospecting with AI signals'')
        (Some [''Data'']) (Some [''Learning curve''])
        (Some ''https://www.apollo.io'') (Some ''Freemium'') (Some (43 / 10)),
      Tool HttpUrl (Some ''Gong'') (Some ''sales'') (Some ''Revenue intelligence'')
        (Some [''Call analysis'']) (Some [''Enterprise pricing''])
        (Some ''https://www.gong.io'') (Some ''Quote-based'') (Some (45 / 10)),
      Tool HttpUrl (Some ''Intercom Fin'') (Some ''support'') (Some ''AI chatbot for support'')
        (Some [''Answers from docs'']) (Some [''Requires good KB''])
        (Some ''https://www.intercom.com'') (Some ''Add-on'') (Some (44 / 10)),
      Tool HttpUrl (Some ''Zendesk AI'') (Some ''support'') (Some ''AI assist in helpdesk'')
        (Some [''Workflows'']) (Some [''Add-on cost''])
        (Some ''https://www.zendesk.com'') (Some ''Add-on'') (Some (41 / 10)),
      Tool HttpUrl (Some ''GitHub Copilot'') (Some ''engineering'')
        (Some ''Code completion and chat'')
        (Some [''IDE integration'']) (Some [''Best with popular langs''])
        (Some ''https://github.com/features/copilot'') (Some ''$10-$19/mo'') (Some (47 / 10)),
      Tool HttpUrl (Some ''OpenAI o1'') (Some ''engineering'')
        (Some ''Reasoning models for complex tasks'')
        (Some [''Reasoning'']) (Some [''Cost''])
        (Some ''https://openai.com'') (Some ''Usage-based'') (Some (46 / 10)),
      Tool HttpUrl (Some ''Midjourney'') (Some ''design'') (Some ''Generative images'')
        (Some [''Quality'']) (Some [''Discord UX''])
        (Some ''https://www.midjourney.com'') (Some ''From $10/mo'') (Some (46 / 10)),
      Tool HttpUrl (Some ''Figma AI'') (Some ''design'') (Some ''Generate and edit UI'')
        (Some [''Design-native'']) (Some [''Early features''])
        (Some ''https://www.figma.com'') (Some ''Included'') (Some (42 / 10))]"

definition comps :: "(validation_error + Comparison) list" where
  "comps =
     [Comparison (Some ''marketing'') (Some ''Best AI Tools for Marketing in 2025'')
        (Some ''We tested top tools for content, SEO, and campaigns.'')
        (Some [''Jasper'', ''HubSpot AI'']),
      Comparison (Some ''sales'') (Some ''Top AI Tools for Sales Teams'')
        (Some ''Prospecting, call analysis, and forecasting.'')
        (Some [''Gong'', ''Apollo AI'']),
      Comparison (Some ''support'') (Some ''AI for Customer Support'')
        (Some ''Bots, deflection, and agent assistance.'')
        (Some [''Intercom Fin'', ''Zendesk AI'']),
      Comparison (Some ''engineering'') (Some ''AI for Software Development'')
        (Some ''Code completion, reviews, and reasoning.'')
        (Some [''GitHub Copilot'', ''OpenAI o1'']),
      Comparison (Some ''design'') (Some ''AI for Designers'')
        (Some ''From ideas to assets.'')
        (Some [''Midjourney'', ''Figma AI''])]"

text \<open>
  One block of \<^verbatim>\<open>seed_content\<close>: read the whole collection; if it is empty, build the
  records and store them one by one. A constructor that raises ends the handler there.
\<close>

definition seed_block ::
  "'a document list \<Rightarrow> (validation_error + 'a) list \<Rightarrow> ('a \<Rightarrow> store \<Rightarrow> store) \<Rightarrow>
   store \<Rightarrow> validation_error + store" where
  "seed_block existing records create s =
     (if coll_find (\<lambda>d. True) existing = [] then
        (case collect records of
           Inl e \<Rightarrow> Inl e
         | Inr xs \<Rightarrow> Inr (fold create xs s))
      else Inr s)"

text \<open>
  The handler returns its response or failure, and the store as it leaves it (what was
  stored before a failure stays stored).
\<close>

definition seed_content ::
  "(string \<Rightarrow> string option) \<Rightarrow> store option \<Rightarrow> (failure + json) \<times> store option" where
  "seed_content HttpUrl db =
     (case db of
        None \<Rightarrow> (Inl (HTTPException 500 ''Database not configured''), None)
      | Some s0 \<Rightarrow>
          (case seed_block (sector s0) sectors create_document_sector s0 of
             Inl e \<Rightarrow> (Inl (Unhandled (ValidationError e)), Some s0)
           | Inr s1 \<Rightarrow>
               (case seed_block (tool s1) (tools HttpUrl) create_document_tool s1 of
                  Inl e \<Rightarrow> (Inl (Unhandled (ValidationError e)), Some s1)
                | Inr s2 \<Rightarrow>
                    (case seed_block (comparison s2) comps create_document_comparison s2 of
                       Inl e \<Rightarrow> (Inl (Unhandled (ValidationError e)), Some s2)
                     | Inr s3 \<Rightarrow> (Inr (JObj [(''status'', JStr ''ok'')]), Some s3)))))"

section \<open>GET /sectors and GET /sectors/{slug}\<close>

text \<open>
  \<^verbatim>\<open>get_documents("sector") if db else []\<close> asks for the truth value of the handle. For
  \<open>None\<close> it is false. For a configured handle it is what the driver's class defines,
  which is the parameter \<open>truth\<close>: a truth value, or the exception the test raises.
\<close>

definition list_sectors :: "(store \<Rightarrow> exc + bool) \<Rightarrow> store option \<Rightarrow> failure + json" where
  "list_sectors truth db =
     (case (case db of
              None \<Rightarrow> Inr []
            | Some s \<Rightarrow>
                (case truth s of
                   Inl e \<Rightarrow> Inl e
                 | Inr b \<Rightarrow> Inr (if b then get_documents_sector s else []))) of
        Inl e \<Rightarrow> Inl (Unhandled e)
      | Inr docs \<Rightarrow>
          Inr (JList (map (\<lambda>d. JObj [(''id'', JOid (oid d)),
                                     (''name'', JStr (Sector.name (body d))),
                                     (''slug'', JStr (slug (body d))),
                                     (''description'', opt_str (description (body d)))])
                        docs)))"

text \<open>
  A document that \<^verbatim>\<open>find_one\<close> gives is a dictionary with entries, so \<^verbatim>\<open>not sector\<close>
  holds for \<^verbatim>\<open>None\<close> only; likewise \<^verbatim>\<open>comparison and {...}\<close> is \<^verbatim>\<open>None\<close> or the shaped
  comparison.
\<close>

definition sector_detail :: "store option \<Rightarrow> string \<Rightarrow> failure + json" where
  "sector_detail db slug_arg =
     (case db of
        None \<Rightarrow> Inl (HTTPException 500 ''Database not configured'')
      | Some s \<Rightarrow>
          (case coll_find_one (\<lambda>d. slug (body d) = slug_arg) (sector s) of
             None \<Rightarrow> Inl (HTTPException 404 ''Sector not found'')
           | Some sec \<Rightarrow>
               (let found = coll_find (\<lambda>d. Tool.sector_slug (body d) = slug_arg) (tool s);
                    comp = coll_find_one (\<lambda>d. Comparison.sector_slug (body d) = slug_arg)
                             (comparison s)
                in Inr (JObj
                     [(''sector'',
                         JObj [(''name'', JStr (Sector.name (body sec))),
                               (''slug'', JStr (slug (body sec))),
                               (''description'', opt_str (description (body sec)))]),
                      (''tools'',
                         JList (map (\<lambda>t. JObj
                                   [(''name'', JStr (Tool.name (body t))),
                                    (''summary'', JStr (summary (body t))),
                                    (''strengths'', JList (map JStr (strengths (body t)))),
                                    (''limitations'', JList (map JStr (limitations (body t)))),
                                    (''website'', opt_str (website (body t))),
                                    (''pricing'', opt_str (pricing (body t))),
                                    (''rating'', opt_num (rating (body t)))])
                                  found)),
                      (''comparison'',
                         (case comp of
                            None \<Rightarrow> JNull
                          | Some c \<Rightarrow>
                              JObj [(''headline'', JStr (headline (body c))),
                                    (''intro'', opt_str (intro (body c))),
                                    (''top_tools'', JList (map JStr (top_tools (body c))))]))]))))"

section \<open>POST /search\<close>

text \<open>
  The filter \<^verbatim>\<open>{"$regex": query.q, "$options": "i"}\<close> hands the query text to the store's
  regular-expression engine as a pattern, to be searched for anywhere in a field, letters
  compared without regard to case. The engine is outside the repository. Its behaviour
  is written out here for the patterns made of ordinary characters and the dot: an
  ordinary character stands for itself, the dot for any one character but a line feed.
  Every other pattern (one that holds another metacharacter of the engine) is left to
  the parameter \<open>other\<close>, which gives the compiled pattern as a predicate on the field's
  text, or the exception the store raises for it. Text is a list of 8-bit characters and
  case is folded on the letters A to Z.
\<close>

definition lower :: "char \<Rightarrow> char" where
  "lower c =
     (case map_of (zip ''ABCDEFGHIJKLMNOPQRSTUVWXYZ'' ''abcdefghijklmnopqrstuvwxyz'') c of
        None \<Rightarrow> c
      | Some l \<Rightarrow> l)"

definition metachars :: "char list" where
  "metachars =
     [CHR 0x5C, CHR ''^'', CHR ''$'', CHR ''.'', CHR ''['', CHR ''|'', CHR ''('', CHR '')'',
      CHR ''?'', CHR ''*'', CHR ''+'', CHR ''{'']"

datatype atom = Lit char | Dot

fun compile :: "string \<Rightarrow> atom list option" where
  "compile [] = Some []"
| "compile (c # cs) =
     (if c = CHR ''.'' then map_option (Cons Dot) (compile cs)
      else if c \<in> set metachars then None
      else map_option (Cons (Lit c)) (compile cs))"

fun atom_matches :: "atom \<Rightarrow> char \<Rightarrow> bool" where
  "atom_matches (Lit c) x = (lower c = lower x)"
| "atom_matches Dot x = (x \<noteq> CHR 0x0A)"

fun match_here :: "atom list \<Rightarrow> string \<Rightarrow> bool" where
  "match_here [] s = True"
| "match_here (a # as) [] = False"
| "match_here (a # as) (x # xs) = (atom_matches a x \<and> match_here as xs)"

fun regex_search :: "atom list \<Rightarrow> string \<Rightarrow> bool" where
  "regex_search as [] = match_here as []"
| "regex_search as (x # xs) = (match_here as (x # xs) \<or> regex_search as xs)"

definition regex_i ::
  "(string \<Rightarrow> exc + (string \<Rightarrow> bool)) \<Rightarrow> string \<Rightarrow> exc + (string \<Rightarrow> bool)" where
  "regex_i other p =
     (case compile p of
        Some as \<Rightarrow> Inr (regex_search as)
      | None \<Rightarrow> other p)"

definition search_tools ::
  "(string \<Rightarrow> exc + (string \<Rightarrow> bool)) \<Rightarrow> store option \<Rightarrow> string \<Rightarrow> failure + json" where
  "search_tools other db q =
     (case db of
        None \<Rightarrow> Inr (JObj [(''results'', JList [])])
      | Some s \<Rightarrow>
          (case regex_i other q of
             Inl e \<Rightarrow> Inl (Unhandled e)
           | Inr pattern \<Rightarrow>
               (let found = coll_find (\<lambda>t. pattern (Tool.name (body t))
                                            \<or> pattern (summary (body t))
                                            \<or> pattern (Tool.sector_slug (body t)))
                              (tool s)
                in Inr (JObj
                     [(''results'',
                         JList (map (\<lambda>t. JObj
                                   [(''name'', JStr (Tool.name (body t))),
                                    (''sector_slug'', JStr (Tool.sector_slug (body t))),
                                    (''summary'', JStr (summary (body t))),
                                    (''rating'', opt_num (rating (body t))),
                                    (''website'', opt_str (website (body t)))])
                                  found))]))))"

subsection \<open>The substring reference of the specification\<close>

text \<open>
  The specification's words for the search: a tool is a result when its name, summary or
  sector slug contains the query as a literal substring, case ignored; results are shaped
  as name, sector slug, summary, rating and website.
\<close>

definition contains_ci :: "string \<Rightarrow> string \<Rightarrow> bool" where
  "contains_ci q s = sublist (map lower q) (map lower s)"

definition substring_reference :: "string \<Rightarrow> Tool document list \<Rightarrow> Tool document list" where
  "substring_reference q docs =
     filter (\<lambda>t. contains_ci q (Tool.name (body t))
               \<or> contains_ci q (summary (body t))
               \<or> contains_ci q (Tool.sector_slug (body t)))
       docs"

definition shaped :: "Tool document \<Rightarrow> json" where
  "shaped t =
     JObj [(''name'', JStr (Tool.name (body t))),
           (''sector_slug'', JStr (Tool.sector_slug (body t))),
           (''summary'', JStr (summary (body t))),
           (''rating'', opt_num (rating (body t))),
           (''website'', opt_str (website (body t)))]"

section \<open>Stores and inputs used in the examples\<close>

text \<open>The documents that storing the records \<open>xs\<close> one by one adds, from identifier \<open>n\<close> on.\<close>

fun numbered :: "nat \<Rightarrow> 'a list \<Rightarrow> 'a document list" where
  "numbered n [] = []"
| "numbered n (x # xs) = Document n x # numbered (Suc n) xs"

text \<open>The website arguments of the ten tools of \<^verbatim>\<open>seed_content\<close>.\<close>

definition seed_websites :: "string list" where
  "seed_websites =
     [''https://www.jasper.ai'', ''https://www.hubspot.com'', ''https://www.apollo.io'',
      ''https://www.gong.io'', ''https://www.intercom.com'', ''https://www.zendesk.com'',
      ''https://github.com/features/copilot'', ''https://openai.com'',
      ''https://www.midjourney.com'', ''https://www.figma.com'']"

definition empty_store :: store where
  "empty_store = \<lparr>sector = [], tool = [], comparison = [], next_oid = 0\<rparr>"

definition one_tool :: store where
  "one_tool =
     \<lparr>sector = [],
      tool = [Document 0 \<lparr>Tool.name = ''Gong'', sector_slug = ''sales'',
                           summary = ''Revenue intelligence'', strengths = [],
                           limitations = [], website = None, pricing = None,
                           rating = None\<rparr>],
      comparison = [], next_oid = 1\<rparr>"

text \<open>An engine that refuses every pattern outside the ones written out above.\<close>

definition refuse :: "string \<Rightarrow> exc + (string \<Rightarrow> bool)" where
  "refuse p = Inl (Other_exception ''OperationFailure'')"

definition sales_store :: store where
  "sales_store =
     \<lparr>sector =
        [Document 0 \<lparr>Sector.name = ''Design'', slug = ''design'', description = None\<rparr>,
         Document 1 \<lparr>Sector.name = ''Sales'', slug = ''sales'',
                      description = Some ''Prospecting and enablement''\<rparr>,
         Document 2 \<lparr>Sector.name = ''Sales again'', slug = ''sales'', description = None\<rparr>],
      tool =
        [Document 3 \<lparr>Tool.name = ''Apollo AI'', sector_slug = ''sales'',
                      summary = ''Prospecting with AI signals'', strengths = [''Data''],
                      limitations = [''Learning curve''], website = None,
                      pricing = Some ''Freemium'', rating = Some (43 / 10)\<rparr>,
         Document 4 \<lparr>Tool.name = ''Figma AI'', sector_slug = ''design'',
                      summary = ''Generate and edit UI'', strengths = [],
                      limitations = [], website = None, pricing = None, rating = None\<rparr>,
         Document 5 \<lparr>Tool.name = ''Gong'', sector_slug = ''sales'',
                      summary = ''Revenue intelligence'', strengths = [],
                      limitations = [], website = None, pricing = None, rating = None\<rparr>],
      comparison = [], next_oid = 6\<rparr>"

text \<open>
  The store a run of \<^verbatim>\<open>seed_content\<close> leaves when every constructor succeeds: each
  collection that is empty when its block is reached receives its records.
\<close>

definition after_seed :: "(string \<Rightarrow> string option) \<Rightarrow> store \<Rightarrow> store" where
  "after_seed HttpUrl s0 =
     (let s1 = (if sector s0 = [] then fold create_document_sector (map projr sectors) s0
                else s0);
          s2 = (if tool s1 = [] then fold create_document_tool (map projr (tools HttpUrl)) s1
                else s1)
      in if comparison s2 = [] then fold create_document_comparison (map projr comps) s2
         else s2)"

section \<open>Validation of the schemas\<close>

text \<open>
  Claim C3, as stated: a required text field that is the empty string makes construction
  fail. It does not: no text field carries a length constraint, and a sector whose name
  is the empty string is constructed.
\<close>

theorem empty_name_accepted:
  "Sector (Some '''') (Some ''marketing'') None
     = Inr \<lparr>Sector.name = '''', slug = ''marketing'', description = None\<rparr>"
  by (simp add: Sector_def)

text \<open>
  Claim C3, amended: construction fails with an error that names the field when one of
  the seven required text fields is not given, whatever the other arguments are; the
  empty string is accepted for each of them.
\<close>

theorem missing_text_rejected:
  "(\<exists>errs. Sector None sl d = Inl errs \<and> (''name'', Missing) \<in> set errs)
   \<and> (\<exists>errs. Sector n None d = Inl errs \<and> (''slug'', Missing) \<in> set errs)
   \<and> (\<exists>errs. Tool HttpUrl None sl su st li w p r = Inl errs \<and> (''name'', Missing) \<in> set errs)
   \<and> (\<exists>errs. Tool HttpUrl n None su st li w p r = Inl errs
          \<and> (''sector_slug'', Missing) \<in> set errs)
   \<and> (\<exists>errs. Tool HttpUrl n sl None st li w p r = Inl errs \<and> (''summary'', Missing) \<in> set errs)
   \<and> (\<exists>errs. Comparison None h i t = Inl errs \<and> (''sector_slug'', Missing) \<in> set errs)
   \<and> (\<exists>errs. Comparison sl None i t = Inl errs \<and> (''headline'', Missing) \<in> set errs)
   \<and> Sector (Some '''') (Some '''') d
        = Inr \<lparr>Sector.name = '''', slug = '''', description = d\<rparr>
   \<and> Tool HttpUrl (Some '''') (Some '''') (Some '''') st li None p None
        = Inr \<lparr>Tool.name = '''', sector_slug = '''', summary = '''',
               strengths = default_list st, limitations = default_list li,
               website = None, pricing = p, rating = None\<rparr>
   \<and> Comparison (Some '''') (Some '''') i t
        = Inr \<lparr>Comparison.sector_slug = '''', headline = '''', intro = i,
               top_tools = default_list t\<rparr>"
  by (auto simp: Sector_def Tool_def Comparison_def required_def check_website_def
      check_rating_def Let_def split: option.splits)

text \<open>
  Claim C4: a tool whose three required texts are given, whose rating is absent or a
  number from 0 to 5, and whose website is absent or accepted as a URL, is constructed;
  with a rating below 0 or above 5 construction fails, with an error on the rating,
  whatever the other arguments are.
\<close>

theorem Tool_rating_and_website:
  "((r = None \<or> (\<exists>x. r = Some x \<and> 0 \<le> x \<and> x \<le> 5))
      \<and> (w = None \<or> (\<exists>u. w = Some u \<and> HttpUrl u \<noteq> None))
     \<longrightarrow> Tool HttpUrl (Some n) (Some sl) (Some su) st li w p r
           = Inr \<lparr>Tool.name = n, sector_slug = sl, summary = su,
                  strengths = default_list st, limitations = default_list li,
                  website = Option.bind w HttpUrl, pricing = p, rating = r\<rparr>)
   \<and> (x < 0 \<or> 5 < x
     \<longrightarrow> (\<exists>errs. Tool HttpUrl n' sl' su' st li w p (Some x) = Inl errs
            \<and> ((''rating'', Greater_than_equal) \<in> set errs
               \<or> (''rating'', Less_than_equal) \<in> set errs)))"
  by (auto simp: Tool_def required_def check_website_def check_rating_def Let_def
      split: option.splits)

theorem Tool_rating_and_website_witness:
  "Tool Some (Some ''Gong'') (Some ''sales'') (Some ''Revenue intelligence'') None None
       (Some ''https://www.gong.io'') None (Some (45 / 10))
     = Inr \<lparr>Tool.name = ''Gong'', sector_slug = ''sales'', summary = ''Revenue intelligence'',
            strengths = [], limitations = [], website = Some ''https://www.gong.io'',
            pricing = None, rating = Some (45 / 10)\<rparr>
   \<and> (\<exists>errs. Tool Some (Some ''Gong'') (Some ''sales'') (Some ''Revenue intelligence'')
                 None None (Some ''https://www.gong.io'') None (Some 6) = Inl errs
          \<and> ((''rating'', Greater_than_equal) \<in> set errs
             \<or> (''rating'', Less_than_equal) \<in> set errs))"
proof -
  have in_range: "\<exists>x. Some (45 / 10 :: rat) = Some x \<and> 0 \<le> x \<and> x \<le> 5"
    by (rule exI [of _ "45 / 10"]) simp
  have accepted: "\<exists>u. Some ''https://www.gong.io'' = Some u \<and> Some u \<noteq> None"
    by simp
  have outside: "(6 :: rat) < 0 \<or> (5 :: rat) < 6"
    by simp
  from in_range accepted outside
    Tool_rating_and_website [of "Some (45 / 10)" "Some ''https://www.gong.io''" Some
      "''Gong''" "''sales''" "''Revenue intelligence''" None None None 6
      "Some ''Gong''" "Some ''sales''" "Some ''Revenue intelligence''"]
  show ?thesis
    by (simp add: default_list_def)
qed

section \<open>Handlers without a store\<close>

text \<open>
  Claim C7: with no store configured, POST /seed and GET /sectors/{slug} fail with status
  500 and detail "Database not configured", for every input; no collection is read or
  written (there is no store in the result).
\<close>

theorem seed_and_detail_need_store:
  "seed_content HttpUrl None = (Inl (HTTPException 500 ''Database not configured''), None)
   \<and> sector_detail None slug_arg = Inl (HTTPException 500 ''Database not configured'')"
  by (simp add: seed_content_def sector_detail_def)

text \<open>
  Claim C8: with no store configured, GET /sectors gives the empty list and POST /search
  gives an object whose results are the empty list, for every input, with no failure.
\<close>

theorem reads_degrade_without_store:
  "list_sectors truth None = Inr (JList [])
   \<and> search_tools other None q = Inr (JObj [(''results'', JList [])])"
  by (simp add: list_sectors_def search_tools_def)

section \<open>Search against the substring reference\<close>

lemma compile_literal:
  "set q \<inter> set metachars = {} \<Longrightarrow> compile q = Some (map Lit q)"
  by (induction q) (auto simp: metachars_def)

lemma match_here_literal:
  "match_here (map Lit q) s = prefix (map lower q) (map lower s)"
proof (induction q arbitrary: s)
  case Nil
  then show ?case by simp
next
  case (Cons c q)
  then show ?case by (cases s) auto
qed

lemma regex_search_literal:
  "regex_search (map Lit q) s = contains_ci q s"
proof (induction s)
  case Nil
  then show ?case by (cases q) (simp_all add: contains_ci_def)
next
  case (Cons x s)
  then show ?case
    by (simp add: contains_ci_def match_here_literal sublist_Cons_right)
qed

lemma regex_search_empty: "regex_search [] s"
  by (induction s) simp_all

text \<open>
  Claim C1, as stated: for every query the results are the tools that contain the query as
  a literal substring. The query is a pattern, not a literal: the query "." finds a tool
  none of whose three fields holds a dot.
\<close>

theorem dot_query_matches_without_dot:
  "search_tools refuse (Some one_tool) ''.''
     = Inr (JObj [(''results'',
                   JList [JObj [(''name'', JStr ''Gong''), (''sector_slug'', JStr ''sales''),
                                (''summary'', JStr ''Revenue intelligence''),
                                (''rating'', JNull), (''website'', JNull)]])])
   \<and> substring_reference ''.'' (tool one_tool) = []"
  by (simp add: search_tools_def regex_i_def coll_find_def one_tool_def opt_num_def
      opt_str_def substring_reference_def contains_ci_def lower_def sublist_Cons_right)

text \<open>
  Claim C1, amended: for every query that holds no metacharacter of the pattern language,
  and every store, the results are exactly the tools whose name, summary or sector slug
  contains the query as a substring, case ignored, in store order, each shaped as name,
  sector slug, summary, rating and website.
\<close>

theorem search_is_substring_match:
  "set q \<inter> set metachars = {} \<Longrightarrow>
   search_tools other (Some s) q
     = Inr (JObj [(''results'', JList (map shaped (substring_reference q (tool s))))])"
  by (simp add: search_tools_def regex_i_def compile_literal regex_search_literal
      coll_find_def substring_reference_def shaped_def)

theorem search_is_substring_match_witness:
  "set ''gong'' \<inter> set metachars = {}
   \<and> search_tools refuse (Some one_tool) ''gong''
     = Inr (JObj [(''results'',
                   JList [JObj [(''name'', JStr ''Gong''), (''sector_slug'', JStr ''sales''),
                                (''summary'', JStr ''Revenue intelligence''),
                                (''rating'', JNull), (''website'', JNull)]])])"
proof -
  have plain: "set ''gong'' \<inter> set metachars = {}"
    by (simp add: metachars_def)
  from plain search_is_substring_match [OF plain, of refuse one_tool]
  show ?thesis
    by (simp add: substring_reference_def contains_ci_def lower_def shaped_def one_tool_def
        opt_num_def opt_str_def sublist_Cons_right)
qed

text \<open>
  Claim C10: with a configured store the empty query returns every tool document of the
  store, in store order; the handler has no special case and no minimum length for it.
\<close>

theorem search_empty_query:
  "search_tools other (Some s) ''''
     = Inr (JObj [(''results'', JList (map shaped (tool s)))])"
  by (simp add: search_tools_def regex_i_def regex_search_empty coll_find_def shaped_def)

section \<open>Seeding\<close>

lemma length_numbered: "length (numbered n xs) = length xs"
  by (induction xs arbitrary: n) simp_all

lemma body_numbered: "map body (numbered n xs) = xs"
  by (induction xs arbitrary: n) simp_all

lemma collect_all_right:
  "list_all (\<lambda>x. \<not> isl x) xs \<Longrightarrow> collect xs = Inr (map projr xs)"
  by (induction xs) (auto split: sum.splits)

lemma map_Inr_projr: "list_all (\<lambda>x. \<not> isl x) xs \<Longrightarrow> map Inr (map projr xs) = xs"
  by (induction xs) (auto split: sum.splits)

lemma stored_records:
  "list_all (\<lambda>x. \<not> isl x) xs \<Longrightarrow> map (Inr \<circ> body) (numbered n (map projr xs)) = xs"
  using map_Inr_projr [of xs] body_numbered [of n "map projr xs"]
  by (metis map_map)

lemma fold_create_sector:
  "fold create_document_sector xs s =
     s\<lparr>sector := sector s @ numbered (next_oid s) xs, next_oid := next_oid s + length xs\<rparr>"
  by (induction xs arbitrary: s) (simp_all add: create_document_sector_def)

lemma fold_create_tool:
  "fold create_document_tool xs s =
     s\<lparr>tool := tool s @ numbered (next_oid s) xs, next_oid := next_oid s + length xs\<rparr>"
  by (induction xs arbitrary: s) (simp_all add: create_document_tool_def)

lemma fold_create_comparison:
  "fold create_document_comparison xs s =
     s\<lparr>comparison := comparison s @ numbered (next_oid s) xs,
       next_oid := next_oid s + length xs\<rparr>"
  by (induction xs arbitrary: s) (simp_all add: create_document_comparison_def)

lemma sectors_valid: "list_all (\<lambda>x. \<not> isl x) sectors"
  by (simp add: sectors_def Sector_def)

lemma comps_valid: "list_all (\<lambda>x. \<not> isl x) comps"
  by (simp add: comps_def Comparison_def)

lemma tools_valid:
  "list_all (\<lambda>u. HttpUrl u \<noteq> None) seed_websites \<Longrightarrow>
   list_all (\<lambda>x. \<not> isl x) (tools HttpUrl)"
  by (auto simp: seed_websites_def tools_def Tool_def required_def check_website_def
      check_rating_def Let_def)

lemma seed_block_result:
  "list_all (\<lambda>x. \<not> isl x) records \<Longrightarrow>
   seed_block existing records create s
     = Inr (if existing = [] then fold create (map projr records) s else s)"
  by (simp add: seed_block_def coll_find_def collect_all_right)

lemma seed_content_Some:
  assumes "list_all (\<lambda>u. HttpUrl u \<noteq> None) seed_websites"
  shows "seed_content HttpUrl (Some s)
           = (Inr (JObj [(''status'', JStr ''ok'')]), Some (after_seed HttpUrl s))"
  using assms
  by (simp add: seed_content_def after_seed_def seed_block_result sectors_valid comps_valid
      tools_valid Let_def)

lemma sector_after_seed:
  "sector (after_seed HttpUrl s)
     = (if sector s = [] then numbered (next_oid s) (map projr sectors) else sector s)"
  by (simp add: after_seed_def Let_def fold_create_sector fold_create_tool
      fold_create_comparison)

lemma tool_after_seed:
  "tool (after_seed HttpUrl s)
     = (if tool s = []
        then numbered (if sector s = [] then next_oid s + length sectors else next_oid s)
               (map projr (tools HttpUrl))
        else tool s)"
  by (simp add: after_seed_def Let_def fold_create_sector fold_create_tool
      fold_create_comparison)

lemma comparison_after_seed:
  "comparison (after_seed HttpUrl s) =
     (if comparison s = [] then
        numbered ((if sector s = [] then length sectors else 0)
                  + (if tool s = [] then length (tools HttpUrl) else 0) + next_oid s)
          (map projr comps)
      else comparison s)"
  by (simp add: after_seed_def Let_def fold_create_sector fold_create_tool
      fold_create_comparison ac_simps)

lemma after_seed_full:
  "sector s \<noteq> [] \<Longrightarrow> tool s \<noteq> [] \<Longrightarrow> comparison s \<noteq> [] \<Longrightarrow> after_seed HttpUrl s = s"
  by (simp add: after_seed_def)

lemma seed_websites_Some: "list_all (\<lambda>u. Some u \<noteq> None) seed_websites"
  by (simp add: seed_websites_def)

text \<open>
  Claim C2: on a configured store whose three collections are empty, POST /seed run twice
  in sequence leaves exactly 5 sector, 10 tool and 5 comparison documents; the second run
  inserts nothing (it leaves the store of the first run). The URL parser is assumed to
  accept the ten websites of the seeded tools.
\<close>

theorem seed_twice:
  assumes "list_all (\<lambda>u. HttpUrl u \<noteq> None) seed_websites"
    and "sector s = []" and "tool s = []" and "comparison s = []"
  shows "\<exists>s1. seed_content HttpUrl (Some s) = (Inr (JObj [(''status'', JStr ''ok'')]), Some s1)
           \<and> length (sector s1) = 5 \<and> length (tool s1) = 10 \<and> length (comparison s1) = 5
           \<and> seed_content HttpUrl (Some s1)
               = (Inr (JObj [(''status'', JStr ''ok'')]), Some s1)"
proof -
  let ?s1 = "after_seed HttpUrl s"
  have first: "seed_content HttpUrl (Some s) = (Inr (JObj [(''status'', JStr ''ok'')]), Some ?s1)"
    by (rule seed_content_Some [OF assms(1)])
  have n5: "length (sector ?s1) = 5"
    using assms(2) by (simp add: sector_after_seed length_numbered sectors_def)
  have n10: "length (tool ?s1) = 10"
    using assms(3) by (simp add: tool_after_seed length_numbered tools_def)
  have n5': "length (comparison ?s1) = 5"
    using assms(4) by (simp add: comparison_after_seed length_numbered comps_def)
  have full: "sector ?s1 \<noteq> []" "tool ?s1 \<noteq> []" "comparison ?s1 \<noteq> []"
    using n5 n10 n5' by auto
  have second: "seed_content HttpUrl (Some ?s1)
                  = (Inr (JObj [(''status'', JStr ''ok'')]), Some ?s1)"
    using seed_content_Some [OF assms(1), of ?s1] after_seed_full [OF full] by simp
  from first n5 n10 n5' second show ?thesis by blast
qed

theorem seed_twice_witness:
  "list_all (\<lambda>u. Some u \<noteq> None) seed_websites
   \<and> sector empty_store = [] \<and> tool empty_store = [] \<and> comparison empty_store = []
   \<and> (\<exists>s1. seed_content Some (Some empty_store)
              = (Inr (JObj [(''status'', JStr ''ok'')]), Some s1)
           \<and> length (sector s1) = 5 \<and> length (tool s1) = 10 \<and> length (comparison s1) = 5
           \<and> seed_content Some (Some s1) = (Inr (JObj [(''status'', JStr ''ok'')]), Some s1))"
proof -
  have empty: "sector empty_store = []" "tool empty_store = []" "comparison empty_store = []"
    by (simp_all add: empty_store_def)
  from seed_websites_Some empty seed_twice [OF seed_websites_Some empty]
  show ?thesis by blast
qed

text \<open>
  Claim C5: for every starting store, POST /seed treats each collection on its own: a
  collection that holds a document is left as it is, and an empty one receives exactly
  the hardcoded records of the handler (5 sectors, 10 tools, 5 comparisons), in order.
  The URL parser is assumed to accept the ten websites of the seeded tools.
\<close>

theorem seed_each_collection:
  assumes "list_all (\<lambda>u. HttpUrl u \<noteq> None) seed_websites"
  shows "\<exists>s1. seed_content HttpUrl (Some s) = (Inr (JObj [(''status'', JStr ''ok'')]), Some s1)
           \<and> (if sector s = [] then map (Inr \<circ> body) (sector s1) = sectors
               else sector s1 = sector s)
           \<and> (if tool s = [] then map (Inr \<circ> body) (tool s1) = tools HttpUrl
               else tool s1 = tool s)
           \<and> (if comparison s = [] then map (Inr \<circ> body) (comparison s1) = comps
               else comparison s1 = comparison s)
           \<and> length sectors = 5 \<and> length (tools HttpUrl) = 10 \<and> length comps = 5"
proof -
  let ?s1 = "after_seed HttpUrl s"
  have run: "seed_content HttpUrl (Some s) = (Inr (JObj [(''status'', JStr ''ok'')]), Some ?s1)"
    by (rule seed_content_Some [OF assms])
  have a: "if sector s = [] then map (Inr \<circ> body) (sector ?s1) = sectors
           else sector ?s1 = sector s"
    by (simp add: sector_after_seed stored_records [OF sectors_valid])
  have b: "if tool s = [] then map (Inr \<circ> body) (tool ?s1) = tools HttpUrl
           else tool ?s1 = tool s"
    by (simp add: tool_after_seed stored_records [OF tools_valid [OF assms]])
  have c: "if comparison s = [] then map (Inr \<circ> body) (comparison ?s1) = comps
           else comparison ?s1 = comparison s"
    by (simp add: comparison_after_seed stored_records [OF comps_valid])
  have d: "length sectors = 5" "length (tools HttpUrl) = 10" "length comps = 5"
    by (simp_all add: sectors_def tools_def comps_def)
  from run a b c d show ?thesis by blast
qed

theorem seed_each_collection_witness:
  "list_all (\<lambda>u. Some u \<noteq> None) seed_websites
   \<and> (\<exists>s1. seed_content Some (Some one_tool)
              = (Inr (JObj [(''status'', JStr ''ok'')]), Some s1)
           \<and> map (Inr \<circ> body) (sector s1) = sectors
           \<and> tool s1 = tool one_tool
           \<and> map (Inr \<circ> body) (comparison s1) = comps)"
proof -
  have state: "sector one_tool = []" "tool one_tool \<noteq> []" "comparison one_tool = []"
    by (simp_all add: one_tool_def)
  from seed_each_collection [OF seed_websites_Some, of one_tool]
  obtain s1 where "seed_content Some (Some one_tool)
        = (Inr (JObj [(''status'', JStr ''ok'')]), Some s1)"
    and "if sector one_tool = [] then map (Inr \<circ> body) (sector s1) = sectors
         else sector s1 = sector one_tool"
    and "if tool one_tool = [] then map (Inr \<circ> body) (tool s1) = tools Some
         else tool s1 = tool one_tool"
    and "if comparison one_tool = [] then map (Inr \<circ> body) (comparison s1) = comps
         else comparison s1 = comparison one_tool"
    by blast
  with state seed_websites_Some show ?thesis
    by auto
qed

section \<open>Sector detail\<close>

lemma coll_find_one_filter:
  "coll_find_one flt docs = (case filter flt docs of [] \<Rightarrow> None | d # _ \<Rightarrow> Some d)"
  by (induction docs) simp_all

text \<open>
  Claim C6: with a configured store, GET /sectors/{slug} fails with status 404 and detail
  "Sector not found" exactly when no sector document has the slug. When one has it, the
  call succeeds with the first such sector shaped as name, slug and description, every
  tool whose sector slug is the slug, in store order, and the first comparison whose
  sector slug is the slug, or null when there is none.
\<close>

theorem sector_detail_found_or_404:
  "(sector_detail (Some s) sl = Inl (HTTPException 404 ''Sector not found''))
     = (\<not> (\<exists>d \<in> set (sector s). slug (body d) = sl))
   \<and> ((\<exists>d \<in> set (sector s). slug (body d) = sl) \<longrightarrow>
      sector_detail (Some s) sl
        = Inr (JObj
            [(''sector'',
                (let sec = hd (filter (\<lambda>d. slug (body d) = sl) (sector s))
                 in JObj [(''name'', JStr (Sector.name (body sec))),
                          (''slug'', JStr (slug (body sec))),
                          (''description'', opt_str (description (body sec)))])),
             (''tools'',
                JList (map (\<lambda>t. JObj
                          [(''name'', JStr (Tool.name (body t))),
                           (''summary'', JStr (summary (body t))),
                           (''strengths'', JList (map JStr (strengths (body t)))),
                           (''limitations'', JList (map JStr (limitations (body t)))),
                           (''website'', opt_str (website (body t))),
                           (''pricing'', opt_str (pricing (body t))),
                           (''rating'', opt_num (rating (body t)))])
                         (filter (\<lambda>t. Tool.sector_slug (body t) = sl) (tool s)))),
             (''comparison'',
                (case filter (\<lambda>c. Comparison.sector_slug (body c) = sl) (comparison s) of
                   [] \<Rightarrow> JNull
                 | c # _ \<Rightarrow>
                     JObj [(''headline'', JStr (headline (body c))),
                           (''intro'', opt_str (intro (body c))),
                           (''top_tools'', JList (map JStr (top_tools (body c))))]))]))"
proof (cases "filter (\<lambda>d. slug (body d) = sl) (sector s)")
  case Nil
  then have none: "\<not> (\<exists>d \<in> set (sector s). slug (body d) = sl)"
    by (simp add: filter_empty_conv)
  from Nil none show ?thesis
    by (simp add: sector_detail_def coll_find_one_filter)
next
  case (Cons d ds)
  then have "d \<in> set (filter (\<lambda>d. slug (body d) = sl) (sector s))"
    by simp
  then have some: "\<exists>d \<in> set (sector s). slug (body d) = sl"
    by auto
  from Cons some show ?thesis
    by (simp add: sector_detail_def coll_find_one_filter coll_find_def Let_def
        split: list.split)
qed

theorem sector_detail_found_or_404_witness:
  "sector_detail (Some sales_store) ''does-not-exist''
     = Inl (HTTPException 404 ''Sector not found'')
   \<and> sector_detail (Some sales_store) ''sales''
     = Inr (JObj
         [(''sector'',
             JObj [(''name'', JStr ''Sales''), (''slug'', JStr ''sales''),
                   (''description'', JStr ''Prospecting and enablement'')]),
          (''tools'',
             JList
               [JObj [(''name'', JStr ''Apollo AI''),
                      (''summary'', JStr ''Prospecting with AI signals''),
                      (''strengths'', JList [JStr ''Data'']),
                      (''limitations'', JList [JStr ''Learning curve'']),
                      (''website'', JNull), (''pricing'', JStr ''Freemium''),
                      (''rating'', JNum (43 / 10))],
                JObj [(''name'', JStr ''Gong''), (''summary'', JStr ''Revenue intelligence''),
                      (''strengths'', JList []), (''limitations'', JList []),
                      (''website'', JNull), (''pricing'', JNull), (''rating'', JNull)]]),
          (''comparison'', JNull)])"
  using sector_detail_found_or_404 [of sales_store "''does-not-exist''"]
    sector_detail_found_or_404 [of sales_store "''sales''"]
  by (simp add: sales_store_def opt_str_def opt_num_def)

text \<open>
  Claim C9: after POST /seed on a configured store whose collections are empty,
  GET /sectors/engineering succeeds; its response holds exactly two tools, named
  "GitHub Copilot" and "OpenAI o1", and a comparison with the headline
  "AI for Software Development". The URL parser is assumed to accept the ten websites of
  the seeded tools.
\<close>

theorem engineering_after_seed:
  assumes "list_all (\<lambda>u. HttpUrl u \<noteq> None) seed_websites"
    and "sector s = []" and "tool s = []" and "comparison s = []"
  shows "\<exists>s1. seed_content HttpUrl (Some s) = (Inr (JObj [(''status'', JStr ''ok'')]), Some s1)
           \<and> sector_detail (Some s1) ''engineering''
             = Inr (JObj
                 [(''sector'',
                     JObj [(''name'', JStr ''Software Development''),
                           (''slug'', JStr ''engineering''),
                           (''description'', JStr ''Code assistants and DevOps'')]),
                  (''tools'',
                     JList
                       [JObj [(''name'', JStr ''GitHub Copilot''),
                              (''summary'', JStr ''Code completion and chat''),
                              (''strengths'', JList [JStr ''IDE integration'']),
                              (''limitations'', JList [JStr ''Best with popular langs'']),
                              (''website'',
                                 opt_str (HttpUrl ''https://github.com/features/copilot'')),
                              (''pricing'', JStr ''$10-$19/mo''),
                              (''rating'', JNum (47 / 10))],
                        JObj [(''name'', JStr ''OpenAI o1''),
                              (''summary'', JStr ''Reasoning models for complex tasks''),
                              (''strengths'', JList [JStr ''Reasoning'']),
                              (''limitations'', JList [JStr ''Cost'']),
                              (''website'', opt_str (HttpUrl ''https://openai.com'')),
                              (''pricing'', JStr ''Usage-based''),
                              (''rating'', JNum (46 / 10))]]),
                  (''comparison'',
                     JObj [(''headline'', JStr ''AI for Software Development''),
                           (''intro'', JStr ''Code completion, reviews, and reasoning.''),
                           (''top_tools'',
                              JList [JStr ''GitHub Copilot'', JStr ''OpenAI o1''])])])"
proof -
  let ?s1 = "after_seed HttpUrl s"
  have run: "seed_content HttpUrl (Some s) = (Inr (JObj [(''status'', JStr ''ok'')]), Some ?s1)"
    by (rule seed_content_Some [OF assms(1)])
  have urls: "HttpUrl ''https://www.jasper.ai'' \<noteq> None"
    "HttpUrl ''https://www.hubspot.com'' \<noteq> None"
    "HttpUrl ''https://www.apollo.io'' \<noteq> None"
    "HttpUrl ''https://www.gong.io'' \<noteq> None"
    "HttpUrl ''https://www.intercom.com'' \<noteq> None"
    "HttpUrl ''https://www.zendesk.com'' \<noteq> None"
    "HttpUrl ''https://github.com/features/copilot'' \<noteq> None"
    "HttpUrl ''https://openai.com'' \<noteq> None"
    "HttpUrl ''https://www.midjourney.com'' \<noteq> None"
    "HttpUrl ''https://www.figma.com'' \<noteq> None"
    using assms(1) by (simp_all add: seed_websites_def)
  have detail: "sector_detail (Some ?s1) ''engineering'' = Inr (JObj
                 [(''sector'',
                     JObj [(''name'', JStr ''Software Development''),
                           (''slug'', JStr ''engineering''),
                           (''description'', JStr ''Code assistants and DevOps'')]),
                  (''tools'',
                     JList
                       [JObj [(''name'', JStr ''GitHub Copilot''),
                              (''summary'', JStr ''Code completion and chat''),
                              (''strengths'', JList [JStr ''IDE integration'']),
                              (''limitations'', JList [JStr ''Best with popular langs'']),
                              (''website'',
                                 opt_str (HttpUrl ''https://github.com/features/copilot'')),
                              (''pricing'', JStr ''$10-$19/mo''),
                              (''rating'', JNum (47 / 10))],
                        JObj [(''name'', JStr ''OpenAI o1''),
                              (''summary'', JStr ''Reasoning models for complex tasks''),
                              (''strengths'', JList [JStr ''Reasoning'']),
                              (''limitations'', JList [JStr ''Cost'']),
                              (''website'', opt_str (HttpUrl ''https://openai.com'')),
                              (''pricing'', JStr ''Usage-based''),
                              (''rating'', JNum (46 / 10))]]),
                  (''comparison'',
                     JObj [(''headline'', JStr ''AI for Software Development''),
                           (''intro'', JStr ''Code completion, reviews, and reasoning.''),
                           (''top_tools'',
                              JList [JStr ''GitHub Copilot'', JStr ''OpenAI o1''])])])"
    using assms(2-4) urls
    by (simp add: sector_detail_def sector_after_seed tool_after_seed comparison_after_seed
        sectors_def tools_def comps_def Sector_def Tool_def Comparison_def required_def
        check_website_def check_rating_def default_list_def coll_find_def opt_str_def
        opt_num_def Let_def option.case_eq_if)
  from run detail show ?thesis by blast
qed

theorem engineering_after_seed_witness:
  "list_all (\<lambda>u. Some u \<noteq> None) seed_websites
   \<and> sector empty_store = [] \<and> tool empty_store = [] \<and> comparison empty_store = []
   \<and> (\<exists>s1. seed_content Some (Some empty_store)
              = (Inr (JObj [(''status'', JStr ''ok'')]), Some s1)
           \<and> sector_detail (Some s1) ''engineering''
             = Inr (JObj
                 [(''sector'',
                     JObj [(''name'', JStr ''Software Development''),
                           (''slug'', JStr ''engineering''),
                           (''description'', JStr ''Code assistants and DevOps'')]),
                  (''tools'',
                     JList
                       [JObj [(''name'', JStr ''GitHub Copilot''),
                              (''summary'', JStr ''Code completion and chat''),
                              (''strengths'', JList [JStr ''IDE integration'']),
                              (''limitations'', JList [JStr ''Best with popular langs'']),
                              (''website'', JStr ''https://github.com/features/copilot''),
                              (''pricing'', JStr ''$10-$19/mo''),
                              (''rating'', JNum (47 / 10))],
                        JObj [(''name'', JStr ''OpenAI o1''),
                              (''summary'', JStr ''Reasoning models for complex tasks''),
                              (''strengths'', JList [JStr ''Reasoning'']),
                              (''limitations'', JList [JStr ''Cost'']),
                              (''website'', JStr ''https://openai.com''),
                              (''pricing'', JStr ''Usage-based''),
                              (''rating'', JNum (46 / 10))]]),
                  (''comparison'',
                     JObj [(''headline'', JStr ''AI for Software Development''),
                           (''intro'', JStr ''Code completion, reviews, and reasoning.''),
                           (''top_tools'',
                              JList [JStr ''GitHub Copilot'', JStr ''OpenAI o1''])])]))"
proof -
  have empty: "sector empty_store = []" "tool empty_store = []" "comparison empty_store = []"
    by (simp_all add: empty_store_def)
  from seed_websites_Some empty engineering_after_seed [OF seed_websites_Some empty]
  show ?thesis by (simp add: opt_str_def)
qed

end
